theory Spec2Isabelle
  imports Main "HOL-Library.Char_ord" "HOL-Library.List_Lexorder"
begin

section \<open>Strings and numbers of the Python runtime\<close>

text \<open>
  The bay-booking cloud function (\<^verbatim>\<open>cloud-function/main.py\<close>) works on Python strings.
  A \<^typ>\<open>string\<close> here is a list of 8-bit characters, read as the code points below 256;
  on that range the character classes below are the ones of CPython 3 (\<^verbatim>\<open>\d\<close> and
  \<^verbatim>\<open>\s\<close> of the module \<^verbatim>\<open>re\<close>, the blanks \<^verbatim>\<open>int()\<close> strips, \<^verbatim>\<open>str.lower\<close>).
  \<^typ>\<open>string\<close> is ordered as Python orders \<^verbatim>\<open>str\<close>: lexicographically by code point.
\<close>

definition is_digit :: "char \<Rightarrow> bool" where
  "is_digit c = (c \<in> set ''0123456789'')"

definition digit_val :: "char \<Rightarrow> nat" where
  "digit_val c = of_char c - 48"

definition digit_char :: "nat \<Rightarrow> char" where
  "digit_char n = ''0123456789'' ! (n mod 10)"

text \<open>\<^verbatim>\<open>\s\<close> of \<^verbatim>\<open>re\<close> on a \<^verbatim>\<open>str\<close> pattern: TAB, LF, VT, FF, CR, FS, GS, RS, US,
  space, NEL and NBSP.\<close>

definition re_space :: "char \<Rightarrow> bool" where
  "re_space c = (of_char c \<in> {9, 10, 11, 12, 13, 28, 29, 30, 31, 32, 133, 160 :: nat})"

text \<open>The blanks \<^verbatim>\<open>int(str)\<close> strips at both ends.\<close>

definition int_space :: "char \<Rightarrow> bool" where
  "int_space c = (of_char c \<in> {9, 10, 11, 12, 13, 32, 133, 160 :: nat})"

text \<open>\<^verbatim>\<open>str.lower()\<close>: A to Z, and the capital letters of Latin-1 (0xC0 to 0xDE but the
  multiplication sign 0xD7), move up by 32, which sets the bit of value 32 (clear in
  both ranges).\<close>

definition char_lower :: "char \<Rightarrow> char" where
  "char_lower c =
     (let n = (of_char c :: nat)
      in if (65 \<le> n \<and> n \<le> 90) \<or> (192 \<le> n \<and> n \<le> 222 \<and> n \<noteq> 215)
         then (case c of Char b0 b1 b2 b3 b4 b5 b6 b7 \<Rightarrow> Char b0 b1 b2 b3 b4 True b6 b7)
         else c)"

definition lower :: "string \<Rightarrow> string" where
  "lower s = map char_lower s"

text \<open>Digits after the first one of an \<^verbatim>\<open>int()\<close> literal: a single underscore may stand
  between two digits.\<close>

fun py_digits :: "int \<Rightarrow> string \<Rightarrow> int option" where
  "py_digits acc [] = Some acc"
| "py_digits acc [c] = (if is_digit c then Some (10 * acc + int (digit_val c)) else None)"
| "py_digits acc (c # d # ds) =
     (if is_digit c then py_digits (10 * acc + int (digit_val c)) (d # ds)
      else if c = CHR ''_'' \<and> is_digit d then py_digits (10 * acc + int (digit_val d)) ds
      else None)"

definition py_number :: "string \<Rightarrow> int option" where
  "py_number s =
     (case s of
        [] \<Rightarrow> None
      | c # cs \<Rightarrow> if is_digit c then py_digits (int (digit_val c)) cs else None)"

text \<open>The conversions between \<^verbatim>\<open>int\<close> and \<^verbatim>\<open>str\<close> raise \<^verbatim>\<open>ValueError\<close> beyond
  \<^verbatim>\<open>sys.get_int_max_str_digits()\<close> digits, 4300 by default; leading zeros count, the sign,
  blanks and underscores do not.\<close>

definition int_max_str_digits :: nat where
  "int_max_str_digits = 4300"

text \<open>\<^verbatim>\<open>int(s)\<close> for a \<^verbatim>\<open>str\<close>, base 10: blanks stripped at both ends, an optional sign,
  then the digits, no more of them than the limit. \<^const>\<open>None\<close> is the \<^verbatim>\<open>ValueError\<close>.\<close>

definition py_int :: "string \<Rightarrow> int option" where
  "py_int s =
     (let t = rev (dropWhile int_space (rev (dropWhile int_space s)))
      in if length (filter is_digit t) > int_max_str_digits then None
         else case t of
           [] \<Rightarrow> None
         | c # cs \<Rightarrow>
             if c = CHR ''-'' then map_option uminus (py_number cs)
             else if c = CHR ''+'' then py_number cs
             else py_number t)"

text \<open>\<^verbatim>\<open>str(n)\<close> of an \<^verbatim>\<open>int\<close>, as the f-string of the booking date formats it:
  \<^const>\<open>None\<close> is the \<^verbatim>\<open>ValueError\<close> for a number of more digits than the limit.\<close>

fun str_nat :: "nat \<Rightarrow> string" where
  "str_nat n = (if n < 10 then [digit_char n] else str_nat (n div 10) @ [digit_char n])"

declare str_nat.simps [simp del]

definition str_int :: "int \<Rightarrow> string option" where
  "str_int i =
     (let ds = str_nat (nat \<bar>i\<bar>)
      in if length ds > int_max_str_digits then None
         else Some (if i < 0 then CHR ''-'' # ds else ds))"

text \<open>\<^verbatim>\<open>s.split(' ')[0]\<close>: the text before the first space.\<close>

definition split_first :: "string \<Rightarrow> string" where
  "split_first s = takeWhile (\<lambda>c. c \<noteq> CHR '' '') s"

section \<open>Time utilities\<close>

text \<open>
  \<^verbatim>\<open>datetime.strptime\<close> compiles its format into a regular expression, matches it at the
  start of the text and raises \<^verbatim>\<open>ValueError\<close> when the match fails or text remains:
  \<^verbatim>\<open>%H\<close> is \<^verbatim>\<open>2[0-3]|[0-1]\d|\d\<close>, \<^verbatim>\<open>%I\<close> is \<^verbatim>\<open>1[0-2]|0[1-9]|[1-9]\<close>, \<^verbatim>\<open>%M\<close> is
  \<^verbatim>\<open>[0-5]\d|\d\<close>, \<^verbatim>\<open>%S\<close> is \<^verbatim>\<open>6[0-1]|[0-5]\d|\d\<close>, a blank of the format is \<^verbatim>\<open>\s+\<close>
  and \<^verbatim>\<open>%p\<close> is \<^verbatim>\<open>am|pm\<close>, letter case ignored. Each field is followed by a character
  that no field contains, so a field is the text up to that character.
\<close>

fun re_H :: "string \<Rightarrow> nat option" where
  "re_H [a, b] =
     (if a = CHR ''2'' \<and> b \<in> set ''0123'' then Some (20 + digit_val b)
      else if a \<in> set ''01'' \<and> is_digit b then Some (10 * digit_val a + digit_val b)
      else None)"
| "re_H [a] = (if is_digit a then Some (digit_val a) else None)"
| "re_H _ = None"

fun re_I :: "string \<Rightarrow> nat option" where
  "re_I [a, b] =
     (if a = CHR ''1'' \<and> b \<in> set ''012'' then Some (10 + digit_val b)
      else if a = CHR ''0'' \<and> b \<in> set ''123456789'' then Some (digit_val b)
      else None)"
| "re_I [a] = (if a \<in> set ''123456789'' then Some (digit_val a) else None)"
| "re_I _ = None"

fun re_M :: "string \<Rightarrow> nat option" where
  "re_M [a, b] =
     (if a \<in> set ''012345'' \<and> is_digit b then Some (10 * digit_val a + digit_val b)
      else None)"
| "re_M [a] = (if is_digit a then Some (digit_val a) else None)"
| "re_M _ = None"

fun re_S :: "string \<Rightarrow> nat option" where
  "re_S [a, b] =
     (if a = CHR ''6'' \<and> b \<in> set ''01'' then Some (60 + digit_val b)
      else if a \<in> set ''012345'' \<and> is_digit b then Some (10 * digit_val a + digit_val b)
      else None)"
| "re_S [a] = (if is_digit a then Some (digit_val a) else None)"
| "re_S _ = None"

definition re_p :: "string \<Rightarrow> string option" where
  "re_p s = (if lower s = ''am'' \<or> lower s = ''pm'' then Some (lower s) else None)"

text \<open>The text before the first \<open>c\<close> and the text after it; \<^const>\<open>None\<close> without a \<open>c\<close>.\<close>

definition cut :: "char \<Rightarrow> string \<Rightarrow> (string \<times> string) option" where
  "cut c s =
     (case dropWhile (\<lambda>x. x \<noteq> c) s of
        [] \<Rightarrow> None
      | _ # rest \<Rightarrow> Some (takeWhile (\<lambda>x. x \<noteq> c) s, rest))"

text \<open>A \<^verbatim>\<open>datetime\<close>: the proleptic Gregorian ordinal of its day (day 1 is 0001-01-01)
  and the second of that day. \<^verbatim>\<open>strptime\<close> without a date field gives 1900-01-01, the
  day 693596; the last day a \<^verbatim>\<open>datetime\<close> can hold is 9999-12-31, the day 3652059.\<close>

record datetime =
  ordinal :: int
  second_of_day :: int

definition MINORDINAL :: int where "MINORDINAL = 1"
definition MAXORDINAL :: int where "MAXORDINAL = 3652059"
definition ordinal_1900 :: int where "ordinal_1900 = 693596"

text \<open>\<^verbatim>\<open>datetime(1900, 1, 1, hour, minute, second)\<close>: the constructor raises
  \<^verbatim>\<open>ValueError\<close> for a second above 59, which \<^verbatim>\<open>%S\<close> lets through.\<close>

definition mk_datetime :: "nat \<Rightarrow> nat \<Rightarrow> nat \<Rightarrow> datetime option" where
  "mk_datetime h m s =
     (if h \<le> 23 \<and> m \<le> 59 \<and> s \<le> 59
      then Some \<lparr>ordinal = ordinal_1900, second_of_day = int (h * 3600 + m * 60 + s)\<rparr>
      else None)"

text \<open>\<^verbatim>\<open>datetime.strptime(s, '%H:%M:%S')\<close>.\<close>

definition strptime_HMS :: "string \<Rightarrow> datetime option" where
  "strptime_HMS s =
     (case cut CHR '':'' s of
        None \<Rightarrow> None
      | Some (hh, rest) \<Rightarrow>
          (case cut CHR '':'' rest of
             None \<Rightarrow> None
           | Some (mm, ss) \<Rightarrow>
               (case (re_H hh, re_M mm, re_S ss) of
                  (Some h, Some m, Some sec) \<Rightarrow> mk_datetime h m sec
                | _ \<Rightarrow> None)))"

text \<open>\<^verbatim>\<open>datetime.strptime(s, '%I:%M %p')\<close>: 12 AM is hour 0, and PM adds 12 to every
  hour but 12.\<close>

definition strptime_IMp :: "string \<Rightarrow> datetime option" where
  "strptime_IMp s =
     (case cut CHR '':'' s of
        None \<Rightarrow> None
      | Some (ii, rest) \<Rightarrow>
          (let mm = takeWhile (\<lambda>c. \<not> re_space c) rest;
               blanks = takeWhile re_space (dropWhile (\<lambda>c. \<not> re_space c) rest);
               pp = dropWhile re_space (dropWhile (\<lambda>c. \<not> re_space c) rest)
           in if blanks = [] then None
              else (case (re_I ii, re_M mm, re_p pp) of
                      (Some h, Some m, Some ampm) \<Rightarrow>
                        mk_datetime
                          (if ampm = ''am'' then (if h = 12 then 0 else h)
                           else (if h \<noteq> 12 then h + 12 else h))
                          m 0
                    | _ \<Rightarrow> None)))"

text \<open>\<^verbatim>\<open>.strftime('%H:%M:%S')\<close> of a time of day, given as its second of the day: three
  fields of two digits.\<close>

definition two_digits :: "nat \<Rightarrow> string" where
  "two_digits n = [digit_char (n div 10), digit_char n]"

definition strftime_HMS :: "int \<Rightarrow> string" where
  "strftime_HMS secs =
     (let n = nat secs
      in two_digits (n div 3600) @ '':'' @ two_digits (n div 60 mod 60) @ '':''
         @ two_digits (n mod 60))"

text \<open>\<^verbatim>\<open>timedelta(hours=h)\<close>, in seconds: \<^verbatim>\<open>OverflowError\<close> beyond 999999999 days.\<close>

definition timedelta_hours :: "int \<Rightarrow> int option" where
  "timedelta_hours h =
     (if - 999999999 \<le> h div 24 \<and> h div 24 \<le> 999999999 then Some (h * 3600) else None)"

text \<open>\<^verbatim>\<open>datetime + timedelta\<close>: \<^verbatim>\<open>OverflowError\<close> when the day leaves the years 1 to
  9999.\<close>

definition datetime_add :: "datetime \<Rightarrow> int \<Rightarrow> datetime option" where
  "datetime_add t delta =
     (let total = second_of_day t + delta;
          day = ordinal t + total div 86400
      in if MINORDINAL \<le> day \<and> day \<le> MAXORDINAL
         then Some \<lparr>ordinal = day, second_of_day = total mod 86400\<rparr>
         else None)"

text \<open>\<^verbatim>\<open>format_start_time\<close>: any exception of the parse is caught and \<^verbatim>\<open>None\<close>
  returned.\<close>

definition format_start_time :: "string \<Rightarrow> string option" where
  "format_start_time start_time =
     (case strptime_IMp start_time of
        None \<Rightarrow> None
      | Some t \<Rightarrow> Some (strftime_HMS (second_of_day t)))"

text \<open>\<^verbatim>\<open>generate_end_time\<close>: the start is the value \<^verbatim>\<open>format_start_time\<close> returned, so it
  can be \<^verbatim>\<open>None\<close>, on which \<^verbatim>\<open>strptime\<close> raises \<^verbatim>\<open>TypeError\<close>. Every exception
  (\<^verbatim>\<open>TypeError\<close>, \<^verbatim>\<open>ValueError\<close>, \<^verbatim>\<open>OverflowError\<close>) is caught and \<^verbatim>\<open>None\<close> returned.\<close>

definition generate_end_time :: "string \<Rightarrow> string option \<Rightarrow> string option" where
  "generate_end_time duration start_time =
     (case start_time of
        None \<Rightarrow> None
      | Some s \<Rightarrow>
          (case strptime_HMS s of
             None \<Rightarrow> None
           | Some t \<Rightarrow>
               (case py_int duration of
                  None \<Rightarrow> None
                | Some h \<Rightarrow>
                    (case timedelta_hours h of
                       None \<Rightarrow> None
                     | Some delta \<Rightarrow>
                         (case datetime_add t delta of
                            None \<Rightarrow> None
                          | Some end_time \<Rightarrow> Some (strftime_HMS (second_of_day end_time)))))))"

section \<open>The store\<close>

text \<open>
  The tables \<^verbatim>\<open>bookings\<close> and \<^verbatim>\<open>bays\<close> live in an external database that the code
  reaches through the Supabase client; only the four requests the code sends are
  modelled. A table is the list of its rows in the order the store returns them (the
  code asks for no ordering). The store assigns a booking's \<^verbatim>\<open>id\<close> from a counter. The
  columns \<^verbatim>\<open>start_time\<close> and \<^verbatim>\<open>end_time\<close> hold the \<^verbatim>\<open>'HH:MM:SS'\<close> texts the code
  writes and are compared as such texts (which orders them as clock times, see
  \<open>strftime_HMS_less\<close> below); a request that carries Python's \<^verbatim>\<open>None\<close> where
  a time is due is answered with an error, which the client raises as an exception.
\<close>

datatype booking_status = Booked | Cancelled

datatype bay_status = Available | Unavailable

record booking =
  bk_id :: int
  bk_email :: string
  bk_bay_id :: int
  bk_date :: string
  bk_start_time :: string
  bk_end_time :: string
  bk_status :: booking_status
  bk_duration :: string

record bay =
  b_id :: int
  b_status :: bay_status

record store =
  bookings :: "booking list"
  bays :: "bay list"
  next_id :: int

datatype api_error = APIError

text \<open>\<^verbatim>\<open>table('bookings').select('bay_id').eq('date', booking_date)
  .lt("start_time", end_time).gt("end_time", start_time)\<close>: the bay of every row that
  passes the three filters. No filter reads the column \<^verbatim>\<open>status\<close>.\<close>

definition booked_bay_ids :: "store \<Rightarrow> string \<Rightarrow> string \<Rightarrow> string \<Rightarrow> int list" where
  "booked_bay_ids st booking_date start_time end_time =
     map bk_bay_id
       (filter (\<lambda>r. bk_date r = booking_date \<and> bk_start_time r < end_time
                    \<and> bk_end_time r > start_time)
          (bookings st))"

definition select_booked_bays ::
  "store \<Rightarrow> string \<Rightarrow> string option \<Rightarrow> string option \<Rightarrow> api_error + int list" where
  "select_booked_bays st booking_date start_time end_time =
     (case (start_time, end_time) of
        (Some s, Some e) \<Rightarrow> Inr (booked_bay_ids st booking_date s e)
      | _ \<Rightarrow> Inl APIError)"

text \<open>\<^verbatim>\<open>table('bays').select('id').not_.in_('id', booked_bay_ids)
  .eq('status', 'Available')\<close>.\<close>

definition select_available_bays :: "store \<Rightarrow> int list \<Rightarrow> int list" where
  "select_available_bays st ids =
     map b_id (filter (\<lambda>b. b_id b \<notin> set ids \<and> b_status b = Available) (bays st))"

text \<open>\<^verbatim>\<open>table('bays').select('id')\<close>.\<close>

definition select_all_bays :: "store \<Rightarrow> int list" where
  "select_all_bays st = map b_id (bays st)"

text \<open>\<^verbatim>\<open>table('bookings').insert({...})\<close> with the status \<^verbatim>\<open>"booked"\<close>: the answer holds
  the row as stored.\<close>

definition insert_booking ::
  "store \<Rightarrow> string \<Rightarrow> int \<Rightarrow> string \<Rightarrow> string option \<Rightarrow> string option \<Rightarrow> string
     \<Rightarrow> api_error + (booking list \<times> store)" where
  "insert_booking st email bay_id booking_date start_time end_time duration =
     (case (start_time, end_time) of
        (Some s, Some e) \<Rightarrow>
          (let row = \<lparr>bk_id = next_id st, bk_email = email, bk_bay_id = bay_id,
                       bk_date = booking_date, bk_start_time = s, bk_end_time = e,
                       bk_status = Booked, bk_duration = duration\<rparr>
           in Inr ([row], st\<lparr>bookings := bookings st @ [row], next_id := next_id st + 1\<rparr>))
      | _ \<Rightarrow> Inl APIError)"

text \<open>\<^verbatim>\<open>table('bookings').update({'status': "cancelled"}).eq("id", booking_id)
  .eq('email', customer_email)\<close>: every row that passes the two filters is set to
  cancelled, and the answer holds the rows updated. No filter reads the column
  \<^verbatim>\<open>status\<close>.\<close>

definition cancel_matches :: "int \<Rightarrow> string \<Rightarrow> booking \<Rightarrow> bool" where
  "cancel_matches booking_id customer_email r =
     (bk_id r = booking_id \<and> bk_email r = customer_email)"

definition update_cancelled :: "store \<Rightarrow> int \<Rightarrow> string \<Rightarrow> booking list \<times> store" where
  "update_cancelled st booking_id customer_email =
     (map (\<lambda>r. r\<lparr>bk_status := Cancelled\<rparr>)
        (filter (cancel_matches booking_id customer_email) (bookings st)),
      st\<lparr>bookings :=
           map (\<lambda>r. if cancel_matches booking_id customer_email r
                    then r\<lparr>bk_status := Cancelled\<rparr> else r)
             (bookings st)\<rparr>)"

section \<open>Availability, booking and cancellation\<close>

text \<open>\<^verbatim>\<open>find_a_bay\<close>: the first bay the store lists, among the Available bays outside
  \<^verbatim>\<open>booked_bay_ids\<close> when that list is not empty, among all bays when it is empty. An
  exception of the store is caught and \<^verbatim>\<open>None\<close> returned.\<close>

definition find_a_bay ::
  "store \<Rightarrow> string \<Rightarrow> string option \<Rightarrow> string option \<Rightarrow> int option" where
  "find_a_bay st booking_date start_time end_time =
     (case select_booked_bays st booking_date start_time end_time of
        Inl _ \<Rightarrow> None
      | Inr ids \<Rightarrow>
          if ids \<noteq> [] then
            (case select_available_bays st ids of
               [] \<Rightarrow> None
             | available_bay_id # _ \<Rightarrow> Some available_bay_id)
          else
            (case select_all_bays st of
               [] \<Rightarrow> None
             | available_bay_id # _ \<Rightarrow> Some available_bay_id))"

text \<open>The parameters of a request (\<^verbatim>\<open>request['sessionInfo']['parameters']\<close>), each typed
  as the code reads it: \<^verbatim>\<open>booking_id\<close> and the three parts of \<^verbatim>\<open>booking_date\<close> after
  \<^verbatim>\<open>int()\<close>, the others as \<^verbatim>\<open>str\<close>. The identifier reaches the store as the integer it
  is.\<close>

record date_parts =
  year :: int
  month :: int
  day :: int

record parameters =
  p_booking_id :: int
  p_customer_email :: string
  p_booking_duration :: string
  p_booking_date :: date_parts
  p_booking_start_time :: string

text \<open>The answers of the two operations: \<open>Booking_made id bay date\<close> is "Booking
  successfully made! Booking number: .. Assigned bay: .. See you on .. !!";
  \<open>No_bays_available\<close> is "No bays are available for the selected time.";
  \<open>Error_processing_booking\<close> is "There was an error processing your booking.";
  \<open>Booking_failed\<close> is "Something went wrong, when trying to make your booking. Please try
  again later"; \<open>Booking_cancelled\<close> is "Your booking has been cancelled!";
  \<open>No_booking_found\<close> is "No booking found with the given id and email".\<close>

datatype reply =
    Booking_made int int string
  | No_bays_available
  | Error_processing_booking
  | Booking_failed
  | Booking_cancelled
  | No_booking_found

text \<open>The f-string \<^verbatim>\<open>f"{int(year)}-{int(month)}-{int(day)}"\<close> of the booking date; an
  exception of a conversion leaves \<^const>\<open>None\<close>.\<close>

definition date_text :: "date_parts \<Rightarrow> string option" where
  "date_text d =
     (case (str_int (year d), str_int (month d), str_int (day d)) of
        (Some y, Some m, Some dd) \<Rightarrow> Some (y @ ''-'' @ m @ ''-'' @ dd)
      | _ \<Rightarrow> None)"

text \<open>\<^verbatim>\<open>new_booking\<close>: an exception (of the date's conversion, of the insert) is caught by
  the \<^verbatim>\<open>except\<close> clause, which answers that something went wrong.\<close>

definition new_booking :: "store \<Rightarrow> parameters \<Rightarrow> reply \<times> store" where
  "new_booking st data =
     (let duration = split_first (p_booking_duration data)
      in case date_text (p_booking_date data) of
           None \<Rightarrow> (Booking_failed, st)
         | Some booking_date \<Rightarrow>
             (let start_time = format_start_time (p_booking_start_time data);
                  end_time = generate_end_time duration start_time
              in case find_a_bay st booking_date start_time end_time of
                   None \<Rightarrow> (No_bays_available, st)
                 | Some bay_id \<Rightarrow>
                     (case insert_booking st (p_customer_email data) bay_id booking_date
                             start_time end_time duration of
                        Inl _ \<Rightarrow> (Booking_failed, st)
                      | Inr (rows, st') \<Rightarrow>
                          (case rows of
                             [] \<Rightarrow> (Error_processing_booking, st')
                           | booking_info # _ \<Rightarrow>
                               (Booking_made (bk_id booking_info) (bk_bay_id booking_info)
                                  (bk_date booking_info), st')))))"

definition cancel_booking :: "store \<Rightarrow> parameters \<Rightarrow> reply \<times> store" where
  "cancel_booking st data =
     (let booking_id = p_booking_id data;
          customer_email = lower (p_customer_email data)
      in case update_cancelled st booking_id customer_email of
           (rows, st') \<Rightarrow>
             if rows \<noteq> [] then (Booking_cancelled, st') else (No_booking_found, st'))"

text \<open>A sequence of booking requests, one after the other.\<close>

fun new_bookings :: "store \<Rightarrow> parameters list \<Rightarrow> store" where
  "new_bookings st [] = st"
| "new_bookings st (data # rest) = new_bookings (snd (new_booking st data)) rest"

section \<open>The notions of the specification\<close>

text \<open>Two intervals \<open>[s1, e1)\<close> and \<open>[s2, e2)\<close> overlap when \<open>s1 < e2\<close> and \<open>s2 < e1\<close>.\<close>

definition overlap :: "string \<Rightarrow> string \<Rightarrow> string \<Rightarrow> string \<Rightarrow> bool" where
  "overlap s1 e1 s2 e2 = (s1 < e2 \<and> s2 < e1)"

text \<open>Two reservations that the invariant forbids side by side: both Booked, on the same
  date and bay, with overlapping intervals.\<close>

definition conflict :: "booking \<Rightarrow> booking \<Rightarrow> bool" where
  "conflict r q =
     (bk_status r = Booked \<and> bk_status q = Booked \<and> bk_date r = bk_date q
      \<and> bk_bay_id r = bk_bay_id q
      \<and> overlap (bk_start_time r) (bk_end_time r) (bk_start_time q) (bk_end_time q))"

text \<open>No two rows at different places of the table are in conflict.\<close>

fun no_double_booking :: "booking list \<Rightarrow> bool" where
  "no_double_booking [] = True"
| "no_double_booking (r # rs) = (list_all (\<lambda>q. \<not> conflict r q) rs \<and> no_double_booking rs)"

text \<open>The occupied set in the specification's words: the bays of the reservations on
  the date whose status is Booked and whose interval overlaps the window.\<close>

definition spec_occupied :: "store \<Rightarrow> string \<Rightarrow> string \<Rightarrow> string \<Rightarrow> int set" where
  "spec_occupied st booking_date start_time end_time =
     bk_bay_id ` set (filter (\<lambda>r. bk_date r = booking_date \<and> bk_status r = Booked
         \<and> overlap (bk_start_time r) (bk_end_time r) start_time end_time) (bookings st))"

text \<open>The same set without the condition on the status.\<close>

definition overlapping_bays :: "store \<Rightarrow> string \<Rightarrow> string \<Rightarrow> string \<Rightarrow> int set" where
  "overlapping_bays st booking_date start_time end_time =
     bk_bay_id ` set (filter (\<lambda>r. bk_date r = booking_date
         \<and> overlap (bk_start_time r) (bk_end_time r) start_time end_time) (bookings st))"

text \<open>The eligible bays of a window: Available, and not the bay of an overlapping row.\<close>

definition eligible_bays :: "store \<Rightarrow> string \<Rightarrow> string \<Rightarrow> string \<Rightarrow> int list" where
  "eligible_bays st booking_date start_time end_time =
     map b_id
       (filter (\<lambda>b. b_status b = Available
                    \<and> b_id b \<notin> set (booked_bay_ids st booking_date start_time end_time))
          (bays st))"

section \<open>Stores and requests of the examples\<close>

definition bay_of :: "int \<Rightarrow> bay_status \<Rightarrow> bay" where
  "bay_of i s = \<lparr>b_id = i, b_status = s\<rparr>"

definition empty_store :: "bay list \<Rightarrow> store" where
  "empty_store bs = \<lparr>bookings = [], bays = bs, next_id = 1\<rparr>"

text \<open>The bays 1, 2 and 3, all Available, listed in that order.\<close>

definition three_bays :: "bay list" where
  "three_bays = [bay_of 1 Available, bay_of 2 Available, bay_of 3 Available]"

text \<open>A reservation of bay 1 on 2024-1-5 from 09:00 to 11:00.\<close>

definition morning_booking :: "booking_status \<Rightarrow> booking" where
  "morning_booking s =
     \<lparr>bk_id = 1, bk_email = ''ann@example.com'', bk_bay_id = 1, bk_date = ''2024-1-5'',
      bk_start_time = ''09:00:00'', bk_end_time = ''11:00:00'', bk_status = s,
      bk_duration = ''2''\<rparr>"

text \<open>A request for two hours from 9 AM on 5 January 2024, and for the cancellation of
  booking 1, by the customer of the given email.\<close>

definition morning_request :: "string \<Rightarrow> parameters" where
  "morning_request email =
     \<lparr>p_booking_id = 1, p_customer_email = email, p_booking_duration = ''2 hours'',
      p_booking_date = \<lparr>year = 2024, month = 1, day = 5\<rparr>,
      p_booking_start_time = ''09:00 AM''\<rparr>"

section \<open>Evaluation\<close>

lemmas time_eval = cut_def digit_val_def is_digit_def re_space_def int_space_def lower_def
  char_lower_def strftime_HMS_def two_digits_def digit_char_def format_start_time_def
  strptime_IMp_def strptime_HMS_def mk_datetime_def re_p_def generate_end_time_def py_int_def
  py_number_def timedelta_hours_def datetime_add_def MINORDINAL_def MAXORDINAL_def
  ordinal_1900_def int_max_str_digits_def

lemmas store_eval = booked_bay_ids_def select_booked_bays_def select_available_bays_def
  select_all_bays_def insert_booking_def cancel_matches_def update_cancelled_def
  find_a_bay_def new_booking_def cancel_booking_def split_first_def str_int_def
  date_text_def int_max_str_digits_def
  str_nat.simps bay_of_def empty_store_def three_bays_def morning_booking_def
  morning_request_def overlap_def conflict_def spec_occupied_def overlapping_bays_def
  eligible_bays_def

section \<open>Time utilities: results\<close>

lemma mk_datetime_Some:
  "mk_datetime h m s = Some t \<Longrightarrow>
     ordinal t = ordinal_1900 \<and> 0 \<le> second_of_day t \<and> second_of_day t < 86400"
  by (auto simp: mk_datetime_def split: if_splits)

lemma strptime_HMS_Some:
  assumes "strptime_HMS s = Some t"
  shows "ordinal t = ordinal_1900 \<and> 0 \<le> second_of_day t \<and> second_of_day t < 86400"
  using assms mk_datetime_Some
  by (auto simp: strptime_HMS_def split: option.splits prod.splits)

text \<open>
  Claim C9. \<^verbatim>\<open>format_start_time\<close> maps "02:00 PM" to 14:00:00 and "11:59 PM" to
  23:59:00, and returns no time (\<^verbatim>\<open>None\<close>, after the \<^verbatim>\<open>ValueError\<close> of the parse) on the
  malformed "2pm".
\<close>

theorem format_start_time_examples:
  "format_start_time ''02:00 PM'' = Some ''14:00:00'' \<and>
   format_start_time ''11:59 PM'' = Some ''23:59:00'' \<and>
   format_start_time ''2pm'' = None"
  by (simp add: time_eval)




text \<open>
  Claim C10 says that \<^verbatim>\<open>generate_end_time\<close> succeeds for every valid start and every
  positive duration that reaches midnight. A hundred million hours from 23:00:00 end
  after the year 9999: the sum raises \<^verbatim>\<open>OverflowError\<close>, and the result is \<^verbatim>\<open>None\<close>.
\<close>

theorem generate_end_time_overflow_counterexample:
  "strptime_HMS ''23:00:00'' \<noteq> None \<and> py_int ''100000000'' = Some 100000000 \<and>
   generate_end_time ''100000000'' (Some ''23:00:00'') = None"
  by (simp add: time_eval)

text \<open>A duration of more digits than \<^verbatim>\<open>int()\<close> converts gives no time either, whatever its
  value.\<close>

lemma digit_not_int_space: "is_digit c \<Longrightarrow> \<not> int_space c"
  by (auto simp: is_digit_def int_space_def)

lemma py_int_digit_limit:
  assumes "list_all is_digit s" and "int_max_str_digits < length s"
  shows "py_int s = None"
proof -
  have ns: "\<not> int_space c" if "c \<in> set s" for c
    using that assms(1) digit_not_int_space by (auto simp: list_all_iff)
  have "dropWhile int_space s = s"
    using ns by (cases s) auto
  moreover have "dropWhile int_space (rev s) = rev s"
    using ns by (cases "rev s") (auto dest: arg_cong [where f=set])
  moreover have "filter is_digit s = s"
    using assms(1) by (simp add: list_all_iff)
  ultimately show ?thesis
    using assms(2) by (simp add: py_int_def)
qed

lemma generate_end_time_digit_limit:
  assumes "list_all is_digit duration" and "int_max_str_digits < length duration"
  shows "generate_end_time duration start_time = None"
  using py_int_digit_limit [OF assms]
  by (simp add: generate_end_time_def split: option.splits)

text \<open>
  Claim C10, amended. For every valid start time and every duration that \<^verbatim>\<open>int()\<close> reads
  as a positive integer \<open>h\<close> (a text of at most 4300 digits) such that the start plus \<open>h\<close>
  hours reaches or passes 24:00 and ends no later than the last day a \<^verbatim>\<open>datetime\<close> holds,
  \<^verbatim>\<open>generate_end_time\<close> succeeds and returns the wall-clock time of the start plus \<open>h\<close>
  hours modulo 24 hours; nothing is rejected for passing midnight.
\<close>

theorem generate_end_time_wraps:
  assumes "strptime_HMS start_time = Some t"
    and "py_int duration = Some h"
    and "0 < h"
    and "86400 \<le> second_of_day t + h * 3600"
    and "ordinal t + (second_of_day t + h * 3600) div 86400 \<le> MAXORDINAL"
  shows "generate_end_time duration (Some start_time) =
           Some (strftime_HMS ((second_of_day t + h * 3600) mod 86400))"
proof -
  from assms(1) have t: "ordinal t = 693596" "0 \<le> second_of_day t" "second_of_day t < 86400"
    using strptime_HMS_Some [of start_time t] by (simp_all add: ordinal_1900_def)
  have day: "0 \<le> (second_of_day t + h * 3600) div 86400"
    using t assms(3) by (simp add: pos_imp_zdiv_nonneg_iff)
  have "(second_of_day t + h * 3600) div 86400 \<le> 2958463"
    using assms(5) t by (simp add: MAXORDINAL_def)
  then have "second_of_day t + h * 3600 < 86400 * 2958464"
    by arith
  then have "h div 24 \<le> 999999999"
    using t by arith
  moreover have "- 999999999 \<le> h div 24"
    using assms(3) by arith
  ultimately have td: "timedelta_hours h = Some (h * 3600)"
    by (simp add: timedelta_hours_def)
  have add: "datetime_add t (h * 3600) =
      Some \<lparr>ordinal = ordinal t + (second_of_day t + h * 3600) div 86400,
            second_of_day = (second_of_day t + h * 3600) mod 86400\<rparr>"
    using assms(5) day t by (simp add: datetime_add_def Let_def MINORDINAL_def)
  show ?thesis
    using assms(1,2) td add by (simp add: generate_end_time_def)
qed

text \<open>Three hours from 23:00:00 end at 02:00:00, a text that is less than the start.\<close>

theorem generate_end_time_wraps_witness:
  "strptime_HMS ''23:00:00'' = Some \<lparr>ordinal = 693596, second_of_day = 82800\<rparr> \<and>
   py_int ''3'' = Some 3 \<and>
   generate_end_time ''3'' (Some ''23:00:00'') = Some ''02:00:00'' \<and>
   (''02:00:00'' :: string) < ''23:00:00''"
  using generate_end_time_wraps
    [of "''23:00:00''" "\<lparr>ordinal = 693596, second_of_day = 82800\<rparr>" "''3''" 3]
  by (simp add: time_eval)

section \<open>The order of the clock texts\<close>

text \<open>
  The times that \<^verbatim>\<open>format_start_time\<close> and \<^verbatim>\<open>generate_end_time\<close> return are texts written
  by \<^verbatim>\<open>strftime('%H:%M:%S')\<close>, and on those texts the order of the texts is the order of
  the clock times: comparing the stored times as texts is comparing them as times.
\<close>

lemma of_char_digit_char: "n < 10 \<Longrightarrow> (of_char (digit_char n) :: nat) = 48 + n"
proof -
  assume "n < 10"
  then have "n \<in> {0, 1, 2, 3, 4, 5, 6, 7, 8, 9}" by auto
  then show ?thesis by (elim insertE emptyE) (simp_all add: digit_char_def)
qed

lemma digit_char_less: "digit_char i < digit_char j \<longleftrightarrow> i mod 10 < j mod 10"
proof -
  have "(of_char (digit_char i) :: nat) = 48 + i mod 10"
    using of_char_digit_char [of "i mod 10"] by (simp add: digit_char_def)
  moreover have "(of_char (digit_char j) :: nat) = 48 + j mod 10"
    using of_char_digit_char [of "j mod 10"] by (simp add: digit_char_def)
  ultimately show ?thesis by (simp add: less_char_def)
qed

lemma digit_char_eq: "digit_char i = digit_char j \<longleftrightarrow> i mod 10 = j mod 10"
proof
  assume "digit_char i = digit_char j"
  then have "(of_char (digit_char i) :: nat) = of_char (digit_char j)" by simp
  moreover have "(of_char (digit_char i) :: nat) = 48 + i mod 10"
    using of_char_digit_char [of "i mod 10"] by (simp add: digit_char_def)
  moreover have "(of_char (digit_char j) :: nat) = 48 + j mod 10"
    using of_char_digit_char [of "j mod 10"] by (simp add: digit_char_def)
  ultimately show "i mod 10 = j mod 10" by simp
next
  assume "i mod 10 = j mod 10"
  then show "digit_char i = digit_char j" by (simp add: digit_char_def)
qed

lemma pair_less:
  fixes q r q' r' :: nat
  assumes "r < 10" and "r' < 10"
  shows "10 * q + r < 10 * q' + r' \<longleftrightarrow> q < q' \<or> (q = q' \<and> r < r')"
  using assms by auto

lemma two_digits_less:
  assumes "m < 100" and "n < 100"
  shows "two_digits m @ xs < two_digits n @ ys \<longleftrightarrow> m < n \<or> (m = n \<and> xs < ys)"
proof -
  have d: "m div 10 mod 10 = m div 10" "n div 10 mod 10 = n div 10"
    using assms by simp_all
  have m: "m = 10 * (m div 10) + m mod 10" and n: "n = 10 * (n div 10) + n mod 10"
    by simp_all
  have lt: "m < n \<longleftrightarrow> m div 10 < n div 10 \<or> (m div 10 = n div 10 \<and> m mod 10 < n mod 10)"
    by (subst m, subst n, rule pair_less) simp_all
  have eq: "m = n \<longleftrightarrow> m div 10 = n div 10 \<and> m mod 10 = n mod 10"
    using m n by metis
  have "two_digits m @ xs < two_digits n @ ys \<longleftrightarrow>
      m div 10 < n div 10 \<or> (m div 10 = n div 10 \<and>
        (m mod 10 < n mod 10 \<or> (m mod 10 = n mod 10 \<and> xs < ys)))"
    by (simp add: two_digits_def digit_char_less digit_char_eq d)
  with lt eq show ?thesis by blast
qed

lemma lex_less:
  fixes h m s h' m' s' :: nat
  assumes "m < 60" "s < 60" "m' < 60" "s' < 60"
  shows "3600 * h + 60 * m + s < 3600 * h' + 60 * m' + s' \<longleftrightarrow>
     h < h' \<or> (h = h' \<and> (m < m' \<or> (m = m' \<and> s < s')))"
  using assms by auto

lemma clock_parts:
  fixes a :: nat
  shows "a = 3600 * (a div 3600) + 60 * (a div 60 mod 60) + a mod 60"
proof -
  have "a div 3600 = a div 60 div 60" by (simp add: div_mult2_eq)
  moreover have "a div 60 = 60 * (a div 60 div 60) + a div 60 mod 60" by simp
  moreover have "a = 60 * (a div 60) + a mod 60" by simp
  ultimately show ?thesis by linarith
qed

lemma clock_less:
  fixes a b :: nat
  shows "a < b \<longleftrightarrow>
     a div 3600 < b div 3600 \<or> (a div 3600 = b div 3600 \<and>
       (a div 60 mod 60 < b div 60 mod 60 \<or> (a div 60 mod 60 = b div 60 mod 60 \<and>
          a mod 60 < b mod 60)))"
proof -
  have "a < b \<longleftrightarrow> 3600 * (a div 3600) + 60 * (a div 60 mod 60) + a mod 60
      < 3600 * (b div 3600) + 60 * (b div 60 mod 60) + b mod 60"
    using clock_parts [of a] clock_parts [of b] by simp
  also have "\<dots> \<longleftrightarrow> a div 3600 < b div 3600 \<or> (a div 3600 = b div 3600 \<and>
       (a div 60 mod 60 < b div 60 mod 60 \<or> (a div 60 mod 60 = b div 60 mod 60 \<and>
          a mod 60 < b mod 60)))"
    by (rule lex_less) simp_all
  finally show ?thesis .
qed

lemma strftime_HMS_less:
  assumes "0 \<le> a" "a < 86400" "0 \<le> b" "b < 86400"
  shows "strftime_HMS a < strftime_HMS b \<longleftrightarrow> a < b"
proof -
  let ?a = "nat a" and ?b = "nat b"
  have r: "?a div 3600 < 100" "?b div 3600 < 100" "?a div 60 mod 60 < 100"
     "?b div 60 mod 60 < 100" "?a mod 60 < 100" "?b mod 60 < 100"
    using assms by simp_all
  have e: "two_digits (?a mod 60) = two_digits (?a mod 60) @ []"
      "two_digits (?b mod 60) = two_digits (?b mod 60) @ []"
    by simp_all
  have "strftime_HMS a < strftime_HMS b \<longleftrightarrow>
     ?a div 3600 < ?b div 3600 \<or> (?a div 3600 = ?b div 3600 \<and>
       (?a div 60 mod 60 < ?b div 60 mod 60 \<or> (?a div 60 mod 60 = ?b div 60 mod 60 \<and>
          ?a mod 60 < ?b mod 60)))"
    unfolding strftime_HMS_def Let_def
    apply (subst e(1), subst e(2))
    apply (simp only: two_digits_less r append_Cons append_Nil Cons_less_Cons less_irrefl simp_thms)
    done
  also have "\<dots> \<longleftrightarrow> ?a < ?b" by (rule clock_less [symmetric])
  also have "\<dots> \<longleftrightarrow> a < b" using assms by auto
  finally show ?thesis .
qed

lemma strptime_IMp_Some:
  assumes "strptime_IMp s = Some t"
  shows "ordinal t = ordinal_1900 \<and> 0 \<le> second_of_day t \<and> second_of_day t < 86400"
  using assms mk_datetime_Some
  by (auto simp: strptime_IMp_def Let_def split: option.splits prod.splits if_splits)

lemma format_start_time_clock:
  assumes "format_start_time s = Some t"
  shows "\<exists>n. 0 \<le> n \<and> n < 86400 \<and> t = strftime_HMS n"
  using assms strptime_IMp_Some
  by (auto simp: format_start_time_def split: option.splits)

lemma datetime_add_Some:
  assumes "datetime_add t delta = Some t'"
  shows "0 \<le> second_of_day t' \<and> second_of_day t' < 86400"
  using assms by (auto simp: datetime_add_def Let_def split: if_splits)

lemma generate_end_time_clock:
  assumes "generate_end_time duration start_time = Some t"
  shows "\<exists>n. 0 \<le> n \<and> n < 86400 \<and> t = strftime_HMS n"
  using assms datetime_add_Some
  by (auto simp: generate_end_time_def split: option.splits)

section \<open>Availability: results\<close>

text \<open>
  Claim C2 says that the occupied set holds the bays of the Booked reservations only.
  The query of \<^verbatim>\<open>find_a_bay\<close> has no filter on the status: a Cancelled reservation of
  bay 1 from 09:00 to 11:00 puts bay 1 into the answer for the window from 10:00 to
  12:00, while the set of the specification is empty.
\<close>

theorem booked_bay_ids_cancelled_counterexample:
  "select_booked_bays (empty_store three_bays\<lparr>bookings := [morning_booking Cancelled]\<rparr>)
       ''2024-1-5'' (Some ''10:00:00'') (Some ''12:00:00'') = Inr [1] \<and>
   spec_occupied (empty_store three_bays\<lparr>bookings := [morning_booking Cancelled]\<rparr>)
       ''2024-1-5'' ''10:00:00'' ''12:00:00'' = {}"
  by (simp add: store_eval)

text \<open>
  Claim C2, amended. For every date and candidate interval, the occupied set computed by
  \<^verbatim>\<open>find_a_bay\<close> is exactly the bays of the reservations on that date, of either status,
  whose interval overlaps the candidate under the strict test \<open>s1 < e2\<close> and \<open>s2 < e1\<close>;
  it contains the set of the specification.
\<close>

theorem booked_bay_ids_any_status:
  "select_booked_bays st booking_date (Some start_time) (Some end_time)
     = Inr (booked_bay_ids st booking_date start_time end_time) \<and>
   set (booked_bay_ids st booking_date start_time end_time)
     = overlapping_bays st booking_date start_time end_time \<and>
   spec_occupied st booking_date start_time end_time
     \<subseteq> set (booked_bay_ids st booking_date start_time end_time)"
  by (auto simp: select_booked_bays_def booked_bay_ids_def overlapping_bays_def
      spec_occupied_def overlap_def)

text \<open>
  Claim C3 says that \<^verbatim>\<open>find_a_bay\<close> never returns an Unavailable bay. With no overlapping
  reservation the code lists all bays without the filter on the status that its other
  branch applies: with bay 1 Unavailable, bay 2 Available and no reservation, it returns
  bay 1.
\<close>

theorem find_a_bay_unavailable:
  "find_a_bay (empty_store [bay_of 1 Unavailable, bay_of 2 Available])
     ''2024-1-5'' (Some ''09:00:00'') (Some ''11:00:00'') = Some 1"
  by (simp add: store_eval)

text \<open>
  Claim C5 says that \<^verbatim>\<open>find_a_bay\<close> returns the eligible bay of the lowest identifier.
  The code asks the store for no ordering and takes the first row of the answer: when
  the store lists bay 2 before bay 1, both Available, it returns bay 2. And where no
  reservation overlaps, the first row is taken whatever its status: with bay 1
  Unavailable and bay 2 Available it returns bay 1, which is not eligible (the defect of
  claim C3).
\<close>

theorem find_a_bay_order_counterexample:
  "find_a_bay (empty_store [bay_of 2 Available, bay_of 1 Available])
     ''2024-1-5'' (Some ''09:00:00'') (Some ''11:00:00'') = Some 2 \<and>
   eligible_bays (empty_store [bay_of 2 Available, bay_of 1 Available])
     ''2024-1-5'' ''09:00:00'' ''11:00:00'' = [2, 1] \<and>
   find_a_bay (empty_store [bay_of 1 Unavailable, bay_of 2 Available])
     ''2024-1-5'' (Some ''09:00:00'') (Some ''11:00:00'') = Some 1 \<and>
   eligible_bays (empty_store [bay_of 1 Unavailable, bay_of 2 Available])
     ''2024-1-5'' ''09:00:00'' ''11:00:00'' = [2]"
  by (simp add: store_eval)

lemma sorted_hd_Min: "sorted xs \<Longrightarrow> xs \<noteq> [] \<Longrightarrow> hd xs = Min (set xs)"
  by (cases xs) (auto simp: Min_insert2 intro!: Min_eqI [symmetric])

lemma sorted_map_filter: "sorted (map f xs) \<Longrightarrow> sorted (map f (filter P xs))"
  by (induction xs) auto

lemma list_case_hd: "xs \<noteq> [] \<Longrightarrow> (case xs of [] \<Rightarrow> None | x # _ \<Rightarrow> Some x) = Some (hd xs)"
  by (cases xs) simp_all

text \<open>
  Claim C5, amended. When the store lists the bays by ascending identifier, and either
  some reservation overlaps the window or every bay is Available, \<^verbatim>\<open>find_a_bay\<close> returns
  the lowest identifier among the eligible bays (Available, and not the bay of an
  overlapping reservation) whenever there is one; in particular, with the bays 1, 2, 3
  listed in that order, all Available, and no reservation, it returns bay 1 for the
  window from 09:00 to 11:00 of any date.
\<close>

theorem find_a_bay_lowest:
  assumes "sorted (map b_id (bays st))"
    and "eligible_bays st booking_date start_time end_time \<noteq> []"
    and "booked_bay_ids st booking_date start_time end_time \<noteq> []
         \<or> list_all (\<lambda>b. b_status b = Available) (bays st)"
  shows "find_a_bay st booking_date (Some start_time) (Some end_time)
           = Some (Min (set (eligible_bays st booking_date start_time end_time))) \<and>
         find_a_bay (empty_store three_bays) booking_date (Some ''09:00:00'') (Some ''11:00:00'')
           = Some 1"
proof -
  let ?ids = "booked_bay_ids st booking_date start_time end_time"
  let ?el = "eligible_bays st booking_date start_time end_time"
  have srt: "sorted ?el"
    unfolding eligible_bays_def using assms(1) by (rule sorted_map_filter)
  have el: "select_available_bays st ?ids = ?el"
    by (simp add: select_available_bays_def eligible_bays_def conj_commute)
  have "find_a_bay st booking_date (Some start_time) (Some end_time) = Some (hd ?el)"
  proof (cases "?ids = []")
    case False
    then show ?thesis
      using assms(2) by (simp add: find_a_bay_def select_booked_bays_def el list_case_hd)
  next
    case True
    with assms(3) have "list_all (\<lambda>b. b_status b = Available) (bays st)" by simp
    then have "filter (\<lambda>b. b_status b = Available \<and> b_id b \<notin> set ?ids) (bays st) = bays st"
      using True by (simp add: list_all_iff)
    then have "select_all_bays st = ?el"
      by (simp add: select_all_bays_def eligible_bays_def)
    then show ?thesis
      using True assms(2) by (simp add: find_a_bay_def select_booked_bays_def list_case_hd)
  qed
  moreover have "hd ?el = Min (set ?el)"
    using srt assms(2) by (rule sorted_hd_Min)
  moreover have "find_a_bay (empty_store three_bays) booking_date (Some ''09:00:00'')
      (Some ''11:00:00'') = Some 1"
    by (simp add: store_eval)
  ultimately show ?thesis by simp
qed

text \<open>With bay 1 booked from 09:00 to 11:00, the window from 10:00 to 12:00 gets bay 2.\<close>

theorem find_a_bay_lowest_witness:
  "sorted (map b_id (bays (empty_store three_bays\<lparr>bookings := [morning_booking Booked]\<rparr>))) \<and>
   eligible_bays (empty_store three_bays\<lparr>bookings := [morning_booking Booked]\<rparr>)
     ''2024-1-5'' ''10:00:00'' ''12:00:00'' = [2, 3] \<and>
   booked_bay_ids (empty_store three_bays\<lparr>bookings := [morning_booking Booked]\<rparr>)
     ''2024-1-5'' ''10:00:00'' ''12:00:00'' = [1] \<and>
   find_a_bay (empty_store three_bays\<lparr>bookings := [morning_booking Booked]\<rparr>)
     ''2024-1-5'' (Some ''10:00:00'') (Some ''12:00:00'') = Some 2"
  using find_a_bay_lowest [of "empty_store three_bays\<lparr>bookings := [morning_booking Booked]\<rparr>"
      "''2024-1-5''" "''10:00:00''" "''12:00:00''"]
  by (simp add: store_eval)

section \<open>Booking and cancellation: results\<close>

text \<open>
  Claim C6 says that \<^verbatim>\<open>new_booking\<close> stores the email in lowercase, so that a later
  cancellation with the same email matches. \<^verbatim>\<open>new_booking\<close> stores the email as given,
  \<^verbatim>\<open>cancel_booking\<close> lowers the one it looks for: the booking made for "Ann@Example.com"
  is stored under that text and is not found by the cancellation with the same email.
\<close>

theorem new_booking_email_case:
  "bookings (snd (new_booking (empty_store three_bays) (morning_request ''Ann@Example.com'')))
     = [(morning_booking Booked)\<lparr>bk_email := ''Ann@Example.com''\<rparr>] \<and>
   fst (cancel_booking
          (snd (new_booking (empty_store three_bays) (morning_request ''Ann@Example.com'')))
          (morning_request ''Ann@Example.com'')) = No_booking_found"
  by (simp add: time_eval store_eval Let_def)

text \<open>
  Claim C4 says that \<^verbatim>\<open>cancel_booking\<close> on a reservation that is already Cancelled
  returns the not-found answer, the update being conditional on the status Booked. The
  update of the code filters on the identifier and the email only: it matches the
  Cancelled reservation and the answer is "Your booking has been cancelled!".
\<close>

theorem cancel_booking_cancelled_counterexample:
  "fst (cancel_booking (empty_store three_bays\<lparr>bookings := [morning_booking Cancelled]\<rparr>)
          (morning_request ''ann@example.com'')) = Booking_cancelled \<and>
   fst (cancel_booking (empty_store three_bays\<lparr>bookings := [morning_booking Cancelled]\<rparr>)
          (morning_request ''ann@example.com'')) \<noteq> No_booking_found"
  by (simp add: store_eval time_eval)

lemma cancelled_update_same: "bk_status q = Cancelled \<Longrightarrow> q\<lparr>bk_status := Cancelled\<rparr> = q"
  by (cases q) simp

lemma update_cancelled_keeps:
  "list_all2 (\<lambda>q q'. bk_status q = Cancelled \<longrightarrow> q' = q) rs
     (map (\<lambda>r. if cancel_matches i e r then r\<lparr>bk_status := Cancelled\<rparr> else r) rs)"
  by (induction rs) (simp_all add: cancelled_update_same)

text \<open>
  Claim C4, amended. For every reservation whose status is already Cancelled,
  \<^verbatim>\<open>cancel_booking\<close> invoked with its identifier and an email that matches once lowered
  returns the answer of a successful cancellation, and leaves the reservation unchanged;
  and under any call of \<^verbatim>\<open>cancel_booking\<close>, whatever it matches, every Cancelled
  reservation stays as it is, so a status goes from Booked to Cancelled at most once.
\<close>

theorem cancel_booking_cancelled:
  "(r \<in> set (bookings st) \<and> bk_status r = Cancelled \<and> p_booking_id data = bk_id r
      \<and> lower (p_customer_email data) = bk_email r
    \<longrightarrow> fst (cancel_booking st data) = Booking_cancelled
        \<and> r \<in> set (bookings (snd (cancel_booking st data))))
   \<and> list_all2 (\<lambda>q q'. bk_status q = Cancelled \<longrightarrow> q' = q)
         (bookings st) (bookings (snd (cancel_booking st data)))"
proof -
  let ?i = "p_booking_id data" and ?e = "lower (p_customer_email data)"
  let ?f = "\<lambda>q. if cancel_matches ?i ?e q then q\<lparr>bk_status := Cancelled\<rparr> else q"
  have st': "bookings (snd (cancel_booking st data)) = map ?f (bookings st)"
    by (simp add: cancel_booking_def update_cancelled_def Let_def)
  have keeps: "list_all2 (\<lambda>q q'. bk_status q = Cancelled \<longrightarrow> q' = q)
      (bookings st) (bookings (snd (cancel_booking st data)))"
    unfolding st' by (rule update_cancelled_keeps)
  have "fst (cancel_booking st data) = Booking_cancelled
      \<and> r \<in> set (bookings (snd (cancel_booking st data)))"
    if r: "r \<in> set (bookings st)" "bk_status r = Cancelled" "?i = bk_id r" "?e = bk_email r"
  proof -
    have m: "cancel_matches ?i ?e r"
      using r(3,4) by (simp add: cancel_matches_def)
    with r(1) have "filter (cancel_matches ?i ?e) (bookings st) \<noteq> []"
      by (auto simp: filter_empty_conv)
    then have 1: "fst (cancel_booking st data) = Booking_cancelled"
      by (simp add: cancel_booking_def update_cancelled_def Let_def)
    have "r = ?f r"
      using r(2) by (simp add: cancelled_update_same)
    with r(1) have "r \<in> set (bookings (snd (cancel_booking st data)))"
      unfolding st' set_map by (rule rev_image_eqI)
    with 1 show ?thesis ..
  qed
  with keeps show ?thesis by blast
qed

text \<open>Beside the Cancelled booking 1 stands booking 2, Booked: cancelling booking 1 again
  succeeds and leaves it as it is, and so does cancelling booking 2.\<close>

theorem cancel_booking_cancelled_witness:
  "morning_booking Cancelled
     \<in> set [morning_booking Cancelled, (morning_booking Booked)\<lparr>bk_id := 2\<rparr>] \<and>
   fst (cancel_booking
          (empty_store three_bays\<lparr>bookings :=
             [morning_booking Cancelled, (morning_booking Booked)\<lparr>bk_id := 2\<rparr>]\<rparr>)
          (morning_request ''Ann@Example.com'')) = Booking_cancelled \<and>
   morning_booking Cancelled \<in> set (bookings (snd (cancel_booking
          (empty_store three_bays\<lparr>bookings :=
             [morning_booking Cancelled, (morning_booking Booked)\<lparr>bk_id := 2\<rparr>]\<rparr>)
          (morning_request ''Ann@Example.com'')))) \<and>
   bookings (snd (cancel_booking
          (empty_store three_bays\<lparr>bookings :=
             [morning_booking Cancelled, (morning_booking Booked)\<lparr>bk_id := 2\<rparr>]\<rparr>)
          ((morning_request ''Ann@Example.com'')\<lparr>p_booking_id := 2\<rparr>)))
     = [morning_booking Cancelled, (morning_booking Cancelled)\<lparr>bk_id := 2\<rparr>]"
proof -
  let ?st = "empty_store three_bays\<lparr>bookings :=
             [morning_booking Cancelled, (morning_booking Booked)\<lparr>bk_id := 2\<rparr>]\<rparr>"
  let ?data = "morning_request ''Ann@Example.com''"
  have h: "morning_booking Cancelled \<in> set (bookings ?st)"
      "bk_status (morning_booking Cancelled) = Cancelled"
      "p_booking_id ?data = bk_id (morning_booking Cancelled)"
      "lower (p_customer_email ?data) = bk_email (morning_booking Cancelled)"
    by (simp_all add: store_eval time_eval)
  have b: "bookings ?st = [morning_booking Cancelled, (morning_booking Booked)\<lparr>bk_id := 2\<rparr>]"
    by (simp add: empty_store_def)
  have two: "bookings (snd (cancel_booking ?st (?data\<lparr>p_booking_id := 2\<rparr>)))
     = [morning_booking Cancelled, (morning_booking Cancelled)\<lparr>bk_id := 2\<rparr>]"
    by (simp add: store_eval time_eval Let_def)
  from cancel_booking_cancelled [of "morning_booking Cancelled" ?st ?data] h
  have "fst (cancel_booking ?st ?data) = Booking_cancelled
      \<and> morning_booking Cancelled \<in> set (bookings (snd (cancel_booking ?st ?data)))"
    by blast
  with h(1) two show ?thesis
    unfolding b by blast
qed

section \<open>The booking invariant: results\<close>

lemma find_a_bay_Some:
  assumes "find_a_bay st d start_time end_time = Some b"
  shows "\<exists>s e. start_time = Some s \<and> end_time = Some e \<and> b \<notin> set (booked_bay_ids st d s e)"
proof -
  from assms obtain s e where se: "start_time = Some s" "end_time = Some e"
    by (auto simp: find_a_bay_def select_booked_bays_def split: option.splits)
  let ?ids = "booked_bay_ids st d s e"
  have "b \<notin> set ?ids"
  proof (cases "?ids = []")
    case True
    then show ?thesis by simp
  next
    case False
    with assms se have "b \<in> set (select_available_bays st ?ids)"
      by (auto simp: find_a_bay_def select_booked_bays_def split: list.splits)
    then show ?thesis by (auto simp: select_available_bays_def)
  qed
  with se show ?thesis by simp
qed

lemma new_booking_cases:
  assumes "new_booking st data = (rep, st')"
  shows "(st' = st \<and> (\<forall>i b d. rep \<noteq> Booking_made i b d)) \<or>
         (\<exists>row. find_a_bay st (bk_date row) (Some (bk_start_time row)) (Some (bk_end_time row))
                   = Some (bk_bay_id row)
                \<and> bk_status row = Booked \<and> bk_id row = next_id st
                \<and> bookings st' = bookings st @ [row] \<and> bays st' = bays st
                \<and> rep = Booking_made (bk_id row) (bk_bay_id row) (bk_date row))"
proof (cases "date_text (p_booking_date data)")
  case None
  with assms show ?thesis by (simp add: new_booking_def Let_def)
next
  case (Some d)
  let ?s = "format_start_time (p_booking_start_time data)"
  let ?e = "generate_end_time (split_first (p_booking_duration data)) ?s"
  show ?thesis
  proof (cases "find_a_bay st d ?s ?e")
    case None
    with assms Some show ?thesis by (simp add: new_booking_def Let_def)
  next
    case (Some bay)
    then obtain s e where se: "?s = Some s" "?e = Some e"
      using find_a_bay_Some by blast
    let ?row = "\<lparr>bk_id = next_id st, bk_email = p_customer_email data, bk_bay_id = bay,
                 bk_date = d, bk_start_time = s, bk_end_time = e,
                 bk_status = Booked, bk_duration = split_first (p_booking_duration data)\<rparr>"
    from assms \<open>date_text (p_booking_date data) = Some d\<close> Some se
    have "rep = Booking_made (next_id st) bay d"
      and "st' = st\<lparr>bookings := bookings st @ [?row], next_id := next_id st + 1\<rparr>"
      by (simp_all add: new_booking_def Let_def insert_booking_def)
    with Some se have "find_a_bay st (bk_date ?row) (Some (bk_start_time ?row)) (Some (bk_end_time ?row))
                   = Some (bk_bay_id ?row)
                \<and> bk_status ?row = Booked \<and> bk_id ?row = next_id st
                \<and> bookings st' = bookings st @ [?row] \<and> bays st' = bays st
                \<and> rep = Booking_made (bk_id ?row) (bk_bay_id ?row) (bk_date ?row)"
      by simp
    then show ?thesis by blast
  qed
qed

lemma find_a_bay_not_booked:
  assumes "b \<in> set (booked_bay_ids st d s e)"
  shows "find_a_bay st d (Some s) (Some e) \<noteq> Some b"
  using assms find_a_bay_Some [of st d "Some s" "Some e" b] by auto

text \<open>
  Claim C8. For every booking that \<^verbatim>\<open>new_booking\<close> creates with a start earlier than its
  end, the date, start, end and bay of the row it stored, fed back into the overlap query
  of \<^verbatim>\<open>find_a_bay\<close>, report that bay as occupied: the bay is in the list of booked bays
  and is not the bay \<^verbatim>\<open>find_a_bay\<close> selects for that window.
\<close>

theorem new_booking_round_trip:
  assumes "new_booking st data = (Booking_made i b d, st')"
    and "r = last (bookings st')"
    and "bk_start_time r < bk_end_time r"
  shows "bookings st' = bookings st @ [r] \<and> bk_id r = i \<and> bk_bay_id r = b \<and> bk_date r = d
         \<and> bk_status r = Booked
         \<and> b \<in> set (booked_bay_ids st' d (bk_start_time r) (bk_end_time r))
         \<and> find_a_bay st' d (Some (bk_start_time r)) (Some (bk_end_time r)) \<noteq> Some b"
proof -
  from new_booking_cases [OF assms(1)] obtain row where
    row: "bk_status row = Booked" "bookings st' = bookings st @ [row]"
      "Booking_made i b d = Booking_made (bk_id row) (bk_bay_id row) (bk_date row)"
    by auto
  with assms(2) have r: "r = row" by simp
  have "b \<in> set (booked_bay_ids st' d (bk_start_time r) (bk_end_time r))"
    using row r assms(3) by (simp add: booked_bay_ids_def)
  then show ?thesis
    using row r find_a_bay_not_booked by simp
qed

text \<open>The first booking of the morning gets bay 1, which the window then reports as taken.\<close>

theorem new_booking_round_trip_witness:
  "new_booking (empty_store three_bays) (morning_request ''ann@example.com'')
     = (Booking_made 1 1 ''2024-1-5'',
        \<lparr>bookings = [morning_booking Booked], bays = three_bays, next_id = 2\<rparr>) \<and>
   bk_start_time (morning_booking Booked) < bk_end_time (morning_booking Booked) \<and>
   1 \<in> set (booked_bay_ids \<lparr>bookings = [morning_booking Booked], bays = three_bays, next_id = 2\<rparr>
     ''2024-1-5'' ''09:00:00'' ''11:00:00'') \<and>
   find_a_bay \<lparr>bookings = [morning_booking Booked], bays = three_bays, next_id = 2\<rparr>
     ''2024-1-5'' (Some ''09:00:00'') (Some ''11:00:00'') \<noteq> Some 1"
proof -
  let ?st' = "\<lparr>bookings = [morning_booking Booked], bays = three_bays, next_id = 2\<rparr>"
  have nb: "new_booking (empty_store three_bays) (morning_request ''ann@example.com'')
      = (Booking_made 1 1 ''2024-1-5'', ?st')"
    by (simp add: store_eval time_eval Let_def)
  have r: "morning_booking Booked = last (bookings ?st')"
    by simp
  have lt: "bk_start_time (morning_booking Booked) < bk_end_time (morning_booking Booked)"
    by (simp add: morning_booking_def)
  have f: "bk_start_time (morning_booking Booked) = ''09:00:00''"
    "bk_end_time (morning_booking Booked) = ''11:00:00''"
    by (simp_all add: morning_booking_def)
  from new_booking_round_trip [OF nb r lt] nb lt show ?thesis
    unfolding f by blast
qed

lemma no_double_booking_append:
  "no_double_booking (rs @ [r]) = (no_double_booking rs \<and> list_all (\<lambda>q. \<not> conflict q r) rs)"
  by (induction rs) auto

lemma conflict_booked:
  assumes "conflict q row" and "q \<in> set (bookings st)"
  shows "bk_bay_id row \<in> set (booked_bay_ids st (bk_date row) (bk_start_time row) (bk_end_time row))"
proof -
  from assms(1) have q: "bk_date q = bk_date row" "bk_bay_id q = bk_bay_id row"
      "bk_start_time q < bk_end_time row" "bk_start_time row < bk_end_time q"
    by (simp_all add: conflict_def overlap_def)
  with assms(2) have "q \<in> set (filter (\<lambda>r. bk_date r = bk_date row
      \<and> bk_start_time r < bk_end_time row \<and> bk_end_time r > bk_start_time row) (bookings st))"
    by simp
  then have "bk_bay_id q \<in> set (booked_bay_ids st (bk_date row) (bk_start_time row)
      (bk_end_time row))"
    unfolding booked_bay_ids_def set_map by (rule imageI)
  with q(2) show ?thesis by simp
qed

lemma new_booking_no_double_booking:
  assumes "no_double_booking (bookings st)"
  shows "no_double_booking (bookings (snd (new_booking st data)))"
proof -
  obtain rep st' where nb: "new_booking st data = (rep, st')"
    by (cases "new_booking st data")
  from new_booking_cases [OF nb] show ?thesis
  proof
    assume "st' = st \<and> (\<forall>i b d. rep \<noteq> Booking_made i b d)"
    with assms nb show ?thesis by simp
  next
    assume "\<exists>row. find_a_bay st (bk_date row) (Some (bk_start_time row)) (Some (bk_end_time row))
                   = Some (bk_bay_id row)
                \<and> bk_status row = Booked \<and> bk_id row = next_id st
                \<and> bookings st' = bookings st @ [row] \<and> bays st' = bays st
                \<and> rep = Booking_made (bk_id row) (bk_bay_id row) (bk_date row)"
    then obtain row where
      f: "find_a_bay st (bk_date row) (Some (bk_start_time row)) (Some (bk_end_time row))
            = Some (bk_bay_id row)"
      and b: "bookings st' = bookings st @ [row]"
      by blast
    have "\<not> conflict q row" if "q \<in> set (bookings st)" for q
      using conflict_booked [OF _ that, of row] find_a_bay_not_booked f by blast
    then have "list_all (\<lambda>q. \<not> conflict q row) (bookings st)"
      by (simp add: list_all_iff)
    with assms b nb show ?thesis
      by (simp add: no_double_booking_append)
  qed
qed

lemma conflict_sym: "conflict r q = conflict q r"
  by (auto simp: conflict_def overlap_def)

lemma no_double_booking_iff:
  "no_double_booking rs \<longleftrightarrow>
     (\<forall>i < length rs. \<forall>j < length rs. i \<noteq> j \<longrightarrow> \<not> conflict (rs ! i) (rs ! j))"
proof (induction rs)
  case Nil
  then show ?case by simp
next
  case (Cons r rs)
  have "(\<forall>i < length (r # rs). \<forall>j < length (r # rs). i \<noteq> j \<longrightarrow> \<not> conflict ((r # rs) ! i) ((r # rs) ! j))
      \<longleftrightarrow> (\<forall>j < length rs. \<not> conflict r (rs ! j)) \<and>
          (\<forall>i < length rs. \<forall>j < length rs. i \<noteq> j \<longrightarrow> \<not> conflict (rs ! i) (rs ! j))"
    (is "?L \<longleftrightarrow> ?A \<and> ?B")
  proof
    assume L: ?L
    have ?A
    proof (intro allI impI)
      fix j assume "j < length rs"
      with L have "\<not> conflict ((r # rs) ! 0) ((r # rs) ! Suc j)" by (metis Suc_less_eq length_Cons zero_less_Suc nat.simps(3))
      then show "\<not> conflict r (rs ! j)" by simp
    qed
    moreover have ?B
    proof (intro allI impI)
      fix i j assume "i < length rs" "j < length rs" "i \<noteq> j"
      with L have "\<not> conflict ((r # rs) ! Suc i) ((r # rs) ! Suc j)"
        by (metis Suc_less_eq length_Cons nat.inject)
      then show "\<not> conflict (rs ! i) (rs ! j)" by simp
    qed
    ultimately show "?A \<and> ?B" ..
  next
    assume AB: "?A \<and> ?B"
    show ?L
    proof (intro allI impI)
      fix i j assume ij: "i < length (r # rs)" "j < length (r # rs)" "i \<noteq> j"
      show "\<not> conflict ((r # rs) ! i) ((r # rs) ! j)"
      proof (cases i)
        case 0
        with ij obtain j' where "j = Suc j'" "j' < length rs" by (cases j) auto
        with AB 0 show ?thesis by simp
      next
        case (Suc i')
        show ?thesis
        proof (cases j)
          case 0
          with AB Suc ij show ?thesis by (simp add: conflict_sym [of _ r])
        next
          case (Suc j')
          with AB \<open>i = Suc i'\<close> ij show ?thesis by simp
        qed
      qed
    qed
  qed
  with Cons.IH show ?case
    by (simp add: list_all_length)
qed

text \<open>
  Claim C1. After any sequence of \<^verbatim>\<open>new_booking\<close> operations, run one after the other
  from a store in which no two Booked reservations of the same date and bay overlap, no
  two distinct reservations that are Booked on the same date and the same bay have
  overlapping intervals.
\<close>

theorem new_bookings_no_double_booking:
  assumes "no_double_booking (bookings st)"
  shows "no_double_booking (bookings (new_bookings st reqs)) \<and>
         (\<forall>i < length (bookings (new_bookings st reqs)).
          \<forall>j < length (bookings (new_bookings st reqs)).
            i \<noteq> j \<longrightarrow>
            \<not> conflict (bookings (new_bookings st reqs) ! i) (bookings (new_bookings st reqs) ! j))"
proof -
  have "no_double_booking (bookings (new_bookings st reqs))"
    using assms
  proof (induction reqs arbitrary: st)
    case Nil
    then show ?case by simp
  next
    case (Cons data rest)
    from Cons.prems have "no_double_booking (bookings (snd (new_booking st data)))"
      by (rule new_booking_no_double_booking)
    then show ?case by (simp add: Cons.IH)
  qed
  then show ?thesis
    using no_double_booking_iff [of "bookings (new_bookings st reqs)"] by blast
qed

text \<open>Bay 1 being booked for the morning, two more requests for it get the bays 2 and 3.\<close>

theorem new_bookings_no_double_booking_witness:
  "no_double_booking (bookings (empty_store three_bays\<lparr>bookings := [morning_booking Booked]\<rparr>)) \<and>
   no_double_booking (bookings (new_bookings
     (empty_store three_bays\<lparr>bookings := [morning_booking Booked]\<rparr>)
     [morning_request ''bob@example.com'', morning_request ''cy@example.com''])) \<and>
   map bk_bay_id (bookings (new_bookings
     (empty_store three_bays\<lparr>bookings := [morning_booking Booked]\<rparr>)
     [morning_request ''bob@example.com'', morning_request ''cy@example.com''])) = [1, 2, 3]"
proof -
  let ?st = "empty_store three_bays\<lparr>bookings := [morning_booking Booked]\<rparr>"
  let ?reqs = "[morning_request ''bob@example.com'', morning_request ''cy@example.com'']"
  have h: "no_double_booking (bookings ?st)"
    by (simp add: empty_store_def)
  have m: "map bk_bay_id (bookings (new_bookings ?st ?reqs)) = [1, 2, 3]"
    by (simp add: store_eval time_eval Let_def)
  from new_bookings_no_double_booking [OF h, of ?reqs] h m show ?thesis
    by blast
qed

end
